theory Spec2Isabelle
  imports Main
begin

section \<open>The language switcher of \<^verbatim>\<open>assets/js/lang-switcher.js\<close>\<close>

text \<open>
  A shallow embedding of the script. JavaScript strings are modelled as \<^typ>\<open>string\<close>
  (lists of 8-bit characters); \<^verbatim>\<open>undefined\<close> and \<^verbatim>\<open>null\<close> are \<^term>\<open>None\<close> of an
  option type. The language codes, path separators and class names the script handles
  are ASCII; \<^verbatim>\<open>toLowerCase\<close> and \<^verbatim>\<open>trim\<close> are modelled on the ASCII range and leave every
  other character as it is.
\<close>

subsection \<open>String primitives of the host language\<close>

definition toLowerChar :: "char \<Rightarrow> char" where
  "toLowerChar c =
     (let n = (of_char c :: nat) in if 65 \<le> n \<and> n \<le> 90 then char_of (n + 32) else c)"

definition toLowerCase :: "string \<Rightarrow> string" where
  "toLowerCase s = map toLowerChar s"

text \<open>\<^verbatim>\<open>s.split(c)\<close> for a one-character separator: never the empty array.\<close>

fun split :: "char \<Rightarrow> string \<Rightarrow> string list" where
  "split c [] = [[]]"
| "split c (x # xs) =
     (if x = c then [] # split c xs
      else (case split c xs of [] \<Rightarrow> [[x]] | w # ws \<Rightarrow> (x # w) # ws))"

text \<open>\<^verbatim>\<open>parts.join('/')\<close>.\<close>

fun join :: "string list \<Rightarrow> string" where
  "join [] = []"
| "join [s] = s"
| "join (s # t # ts) = s @ CHR ''/'' # join (t # ts)"

text \<open>\<^verbatim>\<open>arr[0]\<close>: \<^verbatim>\<open>undefined\<close> on the empty array.\<close>

definition first_elem :: "'a list \<Rightarrow> 'a option" where
  "first_elem xs = (case xs of [] \<Rightarrow> None | x # _ \<Rightarrow> Some x)"

text \<open>Truthiness of a possibly undefined string: only a non-empty string is truthy.\<close>

definition truthy :: "string option \<Rightarrow> bool" where
  "truthy v = (case v of None \<Rightarrow> False | Some s \<Rightarrow> s \<noteq> [])"

text \<open>\<^verbatim>\<open>v || d\<close> for a possibly undefined string \<^verbatim>\<open>v\<close> and a string \<^verbatim>\<open>d\<close>.\<close>

definition or_else :: "string option \<Rightarrow> string \<Rightarrow> string" where
  "or_else v d = (case v of None \<Rightarrow> d | Some s \<Rightarrow> if s = [] then d else s)"

definition is_space :: "char \<Rightarrow> bool" where
  "is_space c = ((of_char c :: nat) \<in> {9, 10, 11, 12, 13, 32})"

text \<open>\<^verbatim>\<open>s.trim()\<close>.\<close>

definition trim :: "string \<Rightarrow> string" where
  "trim s = rev (dropWhile is_space (rev (dropWhile is_space s)))"

subsection \<open>Configuration\<close>

definition DEFAULT_LANG :: string where
  "DEFAULT_LANG = ''nl''"

definition SUPPORTED :: "string list" where
  "SUPPORTED = [''en'', ''nl'', ''uk'', ''ua'']"

definition STORAGE_KEY :: string where
  "STORAGE_KEY = ''site_lang''"

subsection \<open>Utilities\<close>

text \<open>
  \<^verbatim>\<open>normalizeLang(code)\<close>, lines 17-24. \<^verbatim>\<open>SUPPORTED.includes\<close> of an undefined value
  (the first element of an empty array) is false.
\<close>

definition normalizeLang :: "string option \<Rightarrow> string" where
  "normalizeLang code =
     (if \<not> truthy code then DEFAULT_LANG
      else
        let c1 = toLowerCase (or_else code []) in
        if c1 = ''ua'' then ''uk''
        else
          let c2 = (if length c1 > 2 then first_elem (split CHR ''-'' c1) else Some c1) in
          (case c2 of
             None \<Rightarrow> DEFAULT_LANG
           | Some c \<Rightarrow>
               if c \<in> set SUPPORTED then (if c = ''ua'' then ''uk'' else c)
               else DEFAULT_LANG))"

subsection \<open>The browser as the script sees it\<close>

text \<open>
  A flag element is an image matched by \<^verbatim>\<open>.lang-switcher img[data-lang]\<close>: the selector
  guarantees that the attribute is present, possibly empty. Its class list is an ordered
  collection of class names.
\<close>

record flag =
  data_lang :: string
  classList :: "string list"

text \<open>\<^verbatim>\<open>location.replace(url)\<close> replaces the history entry, \<^verbatim>\<open>location.href = url\<close> adds one.\<close>

datatype navigation = Replace string | Assign string

text \<open>The outcome of \<^verbatim>\<open>fetch(url, {method: 'HEAD'})\<close>: a response with its \<^verbatim>\<open>ok\<close> field, or a rejection.\<close>

datatype fetch_outcome = Response bool | Rejected

datatype js_error = StorageError

text \<open>
  The fields up to \<open>setItem_throws\<close> are inputs the script only reads: the three parts of
  \<^verbatim>\<open>window.location\<close>, the two locale fields of \<^verbatim>\<open>navigator\<close>, and whether an access to
  \<^verbatim>\<open>localStorage\<close> throws (storage disabled, quota exhausted). The rest is what the script
  changes: the contents of \<^verbatim>\<open>localStorage\<close>, the flag elements of the document, the
  navigations requested so far (a requested navigation does not change
  \<^verbatim>\<open>window.location\<close> while the script still runs), and the indices of the flag elements
  that carry a click listener.
\<close>

record browser =
  loc_pathname :: string
  loc_search :: string
  loc_hash :: string
  nav_language :: "string option"
  nav_userLanguage :: "string option"
  getItem_throws :: bool
  setItem_throws :: bool
  localStorage :: "string \<rightharpoonup> string"
  flags :: "flag list"
  navigations :: "navigation list"
  listeners :: "nat list"

definition getItem :: "string \<Rightarrow> browser \<Rightarrow> js_error + string option" where
  "getItem k b = (if getItem_throws b then Inl StorageError else Inr (localStorage b k))"

definition setItem :: "string \<Rightarrow> string \<Rightarrow> browser \<Rightarrow> js_error + browser" where
  "setItem k v b =
     (if setItem_throws b then Inl StorageError
      else Inr (b\<lparr>localStorage := (localStorage b)(k \<mapsto> v)\<rparr>))"

text \<open>\<^verbatim>\<open>try { localStorage.setItem(k, v); } catch (err) {}\<close>, lines 126 and 158.\<close>

definition try_setItem :: "string \<Rightarrow> string \<Rightarrow> browser \<Rightarrow> browser" where
  "try_setItem k v b = (case setItem k v b of Inl err \<Rightarrow> b | Inr b' \<Rightarrow> b')"

text \<open>\<^verbatim>\<open>pickLangFromNavigator()\<close>, lines 26-29.\<close>

definition pickLangFromNavigator :: "browser \<Rightarrow> string" where
  "pickLangFromNavigator b =
     (let nav = (if truthy (nav_language b) then or_else (nav_language b) []
                 else or_else (nav_userLanguage b) [])
      in normalizeLang (Some nav))"

text \<open>\<^verbatim>\<open>getCurrentPagePath()\<close>, lines 35-53.\<close>

definition getCurrentPagePath :: "browser \<Rightarrow> string" where
  "getCurrentPagePath b =
     (let path = or_else (Some (loc_pathname b)) ''/'' in
      if path = ''/'' \<or> path = ''/index.html'' then ''index.html''
      else
        let path1 = (case path of c # cs \<Rightarrow> if c = CHR ''/'' then cs else path | [] \<Rightarrow> path);
            parts = filter (\<lambda>s. s \<noteq> []) (split CHR ''/'' path1);
            first = (case first_elem parts of Some p \<Rightarrow> toLowerCase p | None \<Rightarrow> []);
            parts1 = (if first \<in> set SUPPORTED \<or> first = ''ua'' then drop 1 parts else parts);
            rest = join parts1
        in if rest = [] then ''index.html'' else rest)"

text \<open>\<^verbatim>\<open>buildTargetUrl(lang, page)\<close>, lines 56-63.\<close>

definition buildTargetUrl :: "browser \<Rightarrow> string \<Rightarrow> string \<Rightarrow> string" where
  "buildTargetUrl b lang page =
     (let page1 = (if page = [] \<or> trim page = [] then ''index.html'' else page)
      in ''/'' @ lang @ ''/'' @ page1 @ loc_search b @ loc_hash b)"

text \<open>\<^verbatim>\<open>pageExists(url)\<close>, lines 67-76: a rejected request is caught and counts as absent.\<close>

definition pageExists :: "(string \<Rightarrow> fetch_outcome) \<Rightarrow> string \<Rightarrow> bool" where
  "pageExists fetch url = (case fetch url of Response ok \<Rightarrow> ok | Rejected \<Rightarrow> False)"

text \<open>\<^verbatim>\<open>classList.add('active')\<close> and \<^verbatim>\<open>classList.remove('active')\<close>.\<close>

definition classList_add :: "string \<Rightarrow> flag \<Rightarrow> flag" where
  "classList_add cls img =
     (if cls \<in> set (classList img) then img else img\<lparr>classList := classList img @ [cls]\<rparr>)"

definition classList_remove :: "string \<Rightarrow> flag \<Rightarrow> flag" where
  "classList_remove cls img = img\<lparr>classList := removeAll cls (classList img)\<rparr>"

text \<open>The body of the \<^verbatim>\<open>forEach\<close> of \<^verbatim>\<open>markActiveFlag\<close>, lines 83-85.\<close>

definition markFlag :: "string \<Rightarrow> flag \<Rightarrow> flag" where
  "markFlag lang img =
     (let code = normalizeLang (Some (data_lang img))
      in if code = lang then classList_add ''active'' img else classList_remove ''active'' img)"

text \<open>\<^verbatim>\<open>markActiveFlag(lang)\<close>, lines 79-87.\<close>

definition markActiveFlag :: "string \<Rightarrow> browser \<Rightarrow> browser" where
  "markActiveFlag lang b =
     (if flags b = [] then b else b\<lparr>flags := map (markFlag lang) (flags b)\<rparr>)"

text \<open>
  The click listener of a flag element, lines 120-144. \<open>chosenRaw\<close> is the element's
  \<^verbatim>\<open>dataset.lang\<close> when it is clicked. The handler is asynchronous; it is modelled as one
  step, from the click to the navigation it requests once the probe has answered.
\<close>

definition clickHandler :: "(string \<Rightarrow> fetch_outcome) \<Rightarrow> string option \<Rightarrow> browser \<Rightarrow> browser" where
  "clickHandler fetch chosenRaw b =
     (let chosen = normalizeLang chosenRaw in
      if chosen = [] then b
      else
        let b1 = try_setItem STORAGE_KEY chosen b;
            b2 = markActiveFlag chosen b1;
            page = getCurrentPagePath b2;
            target = buildTargetUrl b2 chosen page
        in if pageExists fetch target
           then b2\<lparr>navigations := navigations b2 @ [Assign target]\<rparr>
           else b2\<lparr>navigations := navigations b2 @ [Assign (buildTargetUrl b2 chosen ''index.html'')]\<rparr>)"

text \<open>
  The initial language, lines 95-101 of \<^verbatim>\<open>initLangSwitcher\<close>. The read of the stored
  preference is not guarded: an exception of \<^verbatim>\<open>getItem\<close> leaves the function.
\<close>

definition initialLang :: "browser \<Rightarrow> js_error + string" where
  "initialLang b =
     (case getItem STORAGE_KEY b of
        Inl err \<Rightarrow> Inl err
      | Inr saved0 \<Rightarrow>
          let saved = normalizeLang (Some (or_else saved0 [])) in
          if saved = [] \<or> saved = DEFAULT_LANG then
            (let navLang = pickLangFromNavigator b
             in Inr (or_else (Some navLang) DEFAULT_LANG))
          else Inr saved)"

text \<open>\<^verbatim>\<open>autoRedirectFromRoot\<close>, lines 105-113, with the variable \<^verbatim>\<open>saved\<close> of its closure.\<close>

definition autoRedirectFromRoot :: "string \<Rightarrow> browser \<Rightarrow> browser" where
  "autoRedirectFromRoot saved b =
     (let p = or_else (Some (loc_pathname b)) ''/'' in
      if p = ''/'' \<or> p = ''/index.html''
      then b\<lparr>navigations := navigations b @ [Replace (buildTargetUrl b saved ''index.html'')]\<rparr>
      else b)"

text \<open>\<^verbatim>\<open>path.replace(/^\/+|\/+$/g, '')\<close>: all leading and all trailing slashes go.\<close>

definition strip_slashes :: "string \<Rightarrow> string" where
  "strip_slashes s =
     rev (dropWhile (\<lambda>c. c = CHR ''/'') (rev (dropWhile (\<lambda>c. c = CHR ''/'') s)))"

text \<open>\<^verbatim>\<open>markByUrl\<close>, lines 149-160.\<close>

definition markByUrl :: "browser \<Rightarrow> browser" where
  "markByUrl b =
     (let path = toLowerCase (or_else (Some (loc_pathname b)) ''/'');
          segments = split CHR ''/'' (strip_slashes path);
          first = or_else (first_elem segments) [];
          normFirst = normalizeLang (Some first)
      in if normFirst \<in> set SUPPORTED
         then try_setItem STORAGE_KEY normFirst (markActiveFlag normFirst b)
         else b)"

text \<open>The \<^verbatim>\<open>forEach\<close> of lines 119-145: every flag element gets a click listener.\<close>

definition addListeners :: "browser \<Rightarrow> browser" where
  "addListeners b = b\<lparr>listeners := listeners b @ [0..<length (flags b)]\<rparr>"

text \<open>\<^verbatim>\<open>initLangSwitcher()\<close>, lines 90-161.\<close>

definition initLangSwitcher :: "browser \<Rightarrow> js_error + browser" where
  "initLangSwitcher b =
     (if flags b = [] then Inr b
      else
        (case initialLang b of
           Inl err \<Rightarrow> Inl err
         | Inr saved \<Rightarrow>
             Inr (markByUrl (addListeners (markActiveFlag saved (autoRedirectFromRoot saved b))))))"

subsection \<open>Example pages\<close>

text \<open>A switcher with three flags; the third uses the alias code and has a class of its own.\<close>

definition switcher_flags :: "flag list" where
  "switcher_flags =
     [\<lparr>data_lang = ''en'', classList = []\<rparr>,
      \<lparr>data_lang = ''nl'', classList = []\<rparr>,
      \<lparr>data_lang = ''ua'', classList = [''flag'']\<rparr>]"

text \<open>
  A page load at a path, with a stored preference (or none) and a browser locale (or
  none): working storage, no query string, no fragment, the three flags above, nothing
  requested or registered yet.
\<close>

definition visit :: "string \<Rightarrow> string option \<Rightarrow> string option \<Rightarrow> browser" where
  "visit path pref locale =
     \<lparr>loc_pathname = path, loc_search = [], loc_hash = [],
      nav_language = locale, nav_userLanguage = None,
      getItem_throws = False, setItem_throws = False,
      localStorage = (case pref of None \<Rightarrow> Map.empty | Some v \<Rightarrow> [STORAGE_KEY \<mapsto> v]),
      flags = switcher_flags, navigations = [], listeners = []\<rparr>"

text \<open>A server on which no probed page is confirmed present.\<close>

definition fetch_absent :: "string \<Rightarrow> fetch_outcome" where
  "fetch_absent url = Response False"

text \<open>A server that confirms exactly one URL.\<close>

definition fetch_only :: "string \<Rightarrow> string \<Rightarrow> fetch_outcome" where
  "fetch_only present url = Response (url = present)"

text \<open>An environment in which every probe is rejected (network or policy error).\<close>

definition fetch_blocked :: "string \<Rightarrow> fetch_outcome" where
  "fetch_blocked url = Rejected"

section \<open>Properties\<close>

subsection \<open>Normalization\<close>

lemma normalizeLang_range:
  "normalizeLang code = ''en'' \<or> normalizeLang code = ''nl'' \<or> normalizeLang code = ''uk''"
  by (auto simp: normalizeLang_def DEFAULT_LANG_def SUPPORTED_def Let_def split: option.splits)

lemma normalizeLang_fixed:
  "normalizeLang (Some ''en'') = ''en''"
  "normalizeLang (Some ''nl'') = ''nl''"
  "normalizeLang (Some ''uk'') = ''uk''"
  by (simp_all add: normalizeLang_def truthy_def or_else_def toLowerCase_def toLowerChar_def
      SUPPORTED_def DEFAULT_LANG_def)

lemma split_first: "first_elem (split c s) = Some (takeWhile (\<lambda>x. x \<noteq> c) s)"
  by (induction s) (auto simp: first_elem_def split: list.splits)

lemma normalizeLang_unrecognized:
  assumes "takeWhile (\<lambda>x. x \<noteq> CHR ''-'') (toLowerCase s) \<notin> set SUPPORTED"
  shows "normalizeLang (Some s) = DEFAULT_LANG"
proof (cases "length (toLowerCase s) > 2")
  case True
  with assms show ?thesis
    by (auto simp: normalizeLang_def Let_def split_first truthy_def or_else_def)
next
  case False
  have "toLowerCase s \<notin> set SUPPORTED"
  proof
    assume m: "toLowerCase s \<in> set SUPPORTED"
    then have "CHR ''-'' \<notin> set (toLowerCase s)"
      by (auto simp: SUPPORTED_def)
    then have "takeWhile (\<lambda>x. x \<noteq> CHR ''-'') (toLowerCase s) = toLowerCase s"
      by auto
    with assms m show False by simp
  qed
  moreover from this have "toLowerCase s \<noteq> ''ua''"
    by (auto simp: SUPPORTED_def)
  ultimately show ?thesis
    using False by (simp add: normalizeLang_def Let_def truthy_def or_else_def)
qed

text \<open>
  C6. For every input, a string or an undefined value, \<^const>\<open>normalizeLang\<close> returns a
  member of the supported set (and never the alias \<^verbatim>\<open>ua\<close>); undefined and empty input
  give the default language, and so does every input whose lower-cased text before the
  first hyphen is not a supported code; normalizing a normalized value changes nothing.
\<close>

theorem normalizeLang_supported_idempotent:
  "normalizeLang code \<in> set SUPPORTED \<and> normalizeLang code \<noteq> ''ua''
   \<and> normalizeLang None = DEFAULT_LANG \<and> normalizeLang (Some []) = DEFAULT_LANG
   \<and> (\<forall>s. takeWhile (\<lambda>x. x \<noteq> CHR ''-'') (toLowerCase s) \<notin> set SUPPORTED
          \<longrightarrow> normalizeLang (Some s) = DEFAULT_LANG)
   \<and> normalizeLang (Some (normalizeLang code)) = normalizeLang code"
proof -
  have mem: "normalizeLang code \<in> set SUPPORTED \<and> normalizeLang code \<noteq> ''ua''"
    using normalizeLang_range [of code] by (auto simp: SUPPORTED_def)
  have empty: "normalizeLang None = DEFAULT_LANG \<and> normalizeLang (Some []) = DEFAULT_LANG"
    by (simp add: normalizeLang_def truthy_def)
  have idem: "normalizeLang (Some (normalizeLang code)) = normalizeLang code"
    using normalizeLang_range [of code] by (auto simp: normalizeLang_fixed)
  from mem empty idem show ?thesis
    using normalizeLang_unrecognized by blast
qed

theorem normalizeLang_supported_idempotent_witness:
  "normalizeLang (Some ''en-US'') = ''en''
   \<and> normalizeLang (Some (normalizeLang (Some ''en-US''))) = ''en''
   \<and> normalizeLang (Some ''fr-FR'') = ''nl''
   \<and> normalizeLang (Some ''UA'') = ''uk''"
proof -
  have h: "takeWhile (\<lambda>x. x \<noteq> CHR ''-'') (toLowerCase ''fr-FR'') \<notin> set SUPPORTED"
    by code_simp
  have e: "normalizeLang (Some ''en-US'') = ''en''"
    by code_simp
  have u: "normalizeLang (Some ''UA'') = ''uk''"
    by code_simp
  from normalizeLang_supported_idempotent [of "Some ''en-US''"] h e u show ?thesis
    by (simp add: DEFAULT_LANG_def)
qed

subsection \<open>Splitting and joining paths\<close>

lemma split_no_sep: "c \<notin> set x \<Longrightarrow> split c x = [x]"
  by (induction x) auto

lemma split_append_sep: "c \<notin> set x \<Longrightarrow> split c (x @ c # r) = x # split c r"
  by (induction x) auto

lemma split_join:
  "raw \<noteq> [] \<Longrightarrow> \<forall>s\<in>set raw. CHR ''/'' \<notin> set s \<Longrightarrow> split CHR ''/'' (join raw) = raw"
  by (induction raw rule: join.induct) (auto simp: split_no_sep split_append_sep)

lemma join_eq_Nil: "\<forall>s\<in>set ps. s \<noteq> [] \<Longrightarrow> (join ps = []) = (ps = [])"
  by (induction ps rule: join.induct) auto

text \<open>
  Every string is the join of its slash-free pieces, so the decomposition that the
  statement about \<^const>\<open>getCurrentPagePath\<close> below starts from exists for every path that
  begins with a slash.
\<close>

lemma split_nonempty: "split c s \<noteq> []"
  by (induction s) (auto split: list.splits)

lemma split_slashfree: "x \<in> set (split c s) \<Longrightarrow> c \<notin> set x"
  by (induction s arbitrary: x) (auto split: if_splits list.splits)

lemma join_Cons_char: "join ((x # w) # ws) = x # join (w # ws)"
  by (cases ws) simp_all

lemma join_split: "join (split CHR ''/'' s) = s"
proof (induction s)
  case Nil
  show ?case by simp
next
  case (Cons x xs)
  obtain w ws where sp: "split CHR ''/'' xs = w # ws"
    using split_nonempty [of "CHR ''/''" xs] by (cases "split CHR ''/'' xs") auto
  with Cons show ?case
    by (simp add: join_Cons_char)
qed

lemma keep_segments:
  "(case first_elem parts of Some p \<Rightarrow> toLowerCase p | None \<Rightarrow> []) \<in> set SUPPORTED
     \<or> (case first_elem parts of Some p \<Rightarrow> toLowerCase p | None \<Rightarrow> []) = ''ua''
   \<longleftrightarrow> (case parts of [] \<Rightarrow> False | p # ps \<Rightarrow> toLowerCase p \<in> set SUPPORTED)"
  by (auto simp: first_elem_def SUPPORTED_def split: list.splits)

lemma kept_nonempty:
  "\<forall>s\<in>set xs. s \<noteq> [] \<Longrightarrow>
   \<forall>s\<in>set (case xs of [] \<Rightarrow> [] | p # ps \<Rightarrow> if c p then ps else xs). s \<noteq> []"
  by (cases xs) auto

subsection \<open>The page identity\<close>

text \<open>
  C8. Every path is a slash followed by slash-free pieces joined by slashes (\<open>raw\<close>; a
  doubled or trailing slash shows as an empty piece). On such a path
  \<^const>\<open>getCurrentPagePath\<close> takes the non-empty pieces as the segments, drops the first
  segment exactly when its lower-cased form is a supported code (the alias included),
  joins what is left with slashes, and answers \<^verbatim>\<open>index.html\<close> when nothing is left. The
  root \<^verbatim>\<open>/\<close> (no segment) and \<^verbatim>\<open>/index.html\<close> are instances and give \<^verbatim>\<open>index.html\<close>.
\<close>

theorem getCurrentPagePath_segments:
  assumes slashfree: "\<forall>s\<in>set raw. CHR ''/'' \<notin> set s"
    and path: "loc_pathname b = CHR ''/'' # join raw"
  shows "getCurrentPagePath b =
     (let parts = filter (\<lambda>s. s \<noteq> []) raw;
          kept = (case parts of [] \<Rightarrow> []
                  | p # ps \<Rightarrow> if toLowerCase p \<in> set SUPPORTED then ps else parts)
      in if kept = [] then ''index.html'' else join kept)"
proof (cases "raw = [] \<or> raw = [[]]")
  case True
  then have "loc_pathname b = ''/''"
    using path by auto
  with True show ?thesis
    by (auto simp: getCurrentPagePath_def or_else_def)
next
  case False
  then have sj: "split CHR ''/'' (join raw) = raw"
    using slashfree by (simp add: split_join)
  have ne: "join raw \<noteq> []"
  proof
    assume "join raw = []"
    with sj have "raw = [[]]" by simp
    with False show False by simp
  qed
  let ?parts = "filter (\<lambda>s. s \<noteq> []) raw"
  let ?kept = "case ?parts of [] \<Rightarrow> []
                  | p # ps \<Rightarrow> if toLowerCase p \<in> set SUPPORTED then ps else ?parts"
  have kept_ne: "\<forall>s\<in>set ?kept. s \<noteq> []"
    by (rule kept_nonempty) simp
  have drop: "(if (case first_elem ?parts of Some p \<Rightarrow> toLowerCase p | None \<Rightarrow> []) \<in> set SUPPORTED
       \<or> (case first_elem ?parts of Some p \<Rightarrow> toLowerCase p | None \<Rightarrow> []) = ''ua''
       then drop 1 ?parts else ?parts) = ?kept"
    unfolding keep_segments by (cases ?parts) simp_all
  show ?thesis
  proof (cases "join raw = ''index.html''")
    case True
    with sj have "raw = [''index.html'']"
      by (simp add: split_no_sep)
    moreover have "toLowerCase ''index.html'' \<notin> set SUPPORTED"
      by (simp add: toLowerCase_def toLowerChar_def SUPPORTED_def)
    ultimately show ?thesis
      using path by (simp add: getCurrentPagePath_def or_else_def)
  next
    case idx: False
    have nroot: "or_else (Some (loc_pathname b)) ''/'' = loc_pathname b"
      by (simp add: or_else_def path)
    have notroot: "\<not> (loc_pathname b = ''/'' \<or> loc_pathname b = ''/index.html'')"
      using path ne idx by simp
    have p1: "(case loc_pathname b of c # cs \<Rightarrow> if c = CHR ''/'' then cs else loc_pathname b
               | [] \<Rightarrow> loc_pathname b) = join raw"
      using path by simp
    have "getCurrentPagePath b = (if join ?kept = [] then ''index.html'' else join ?kept)"
      by (simp only: getCurrentPagePath_def Let_def nroot notroot if_False p1 sj drop)
    also have "\<dots> = (if ?kept = [] then ''index.html'' else join ?kept)"
      using join_eq_Nil [OF kept_ne] by simp
    finally show ?thesis
      by (simp add: Let_def)
  qed
qed

theorem getCurrentPagePath_segments_witness:
  "getCurrentPagePath (visit ''/'' None None) = ''index.html''
   \<and> getCurrentPagePath (visit ''/index.html'' None None) = ''index.html''
   \<and> getCurrentPagePath (visit ''/en/about.html'' None None) = ''about.html''
   \<and> getCurrentPagePath (visit ''/about.html'' None None) = ''about.html''
   \<and> getCurrentPagePath (visit ''/en/'' None None) = ''index.html''
   \<and> getCurrentPagePath (visit ''/UA/docs//faq.html'' None None) = ''docs/faq.html''"
proof -
  have lc: "toLowerCase ''UA'' = ''ua''" "toLowerCase ''en'' = ''en''"
    "toLowerCase ''about.html'' = ''about.html''" "toLowerCase ''index.html'' = ''index.html''"
    by code_simp+
  show ?thesis
    using getCurrentPagePath_segments [of "[]" "visit ''/'' None None"]
      getCurrentPagePath_segments [of "[''index.html'']" "visit ''/index.html'' None None"]
      getCurrentPagePath_segments [of "[''en'', ''about.html'']" "visit ''/en/about.html'' None None"]
      getCurrentPagePath_segments [of "[''about.html'']" "visit ''/about.html'' None None"]
      getCurrentPagePath_segments [of "[''en'', []]" "visit ''/en/'' None None"]
      getCurrentPagePath_segments [of "[''UA'', ''docs'', [], ''faq.html'']"
        "visit ''/UA/docs//faq.html'' None None"]
    by (simp add: visit_def lc SUPPORTED_def)
qed

subsection \<open>What the steps leave alone\<close>

lemmas model_defs = initLangSwitcher_def initialLang_def getItem_def setItem_def try_setItem_def
  pickLangFromNavigator_def autoRedirectFromRoot_def markActiveFlag_def markFlag_def
  classList_add_def classList_remove_def addListeners_def markByUrl_def strip_slashes_def
  buildTargetUrl_def trim_def is_space_def or_else_def truthy_def first_elem_def
  visit_def switcher_flags_def STORAGE_KEY_def DEFAULT_LANG_def SUPPORTED_def Let_def

lemma normalizeLang_nonempty: "normalizeLang code \<noteq> []"
  using normalizeLang_range [of code] by auto

lemma try_setItem_frame:
  "loc_pathname (try_setItem k v b) = loc_pathname b"
  "loc_search (try_setItem k v b) = loc_search b"
  "loc_hash (try_setItem k v b) = loc_hash b"
  "flags (try_setItem k v b) = flags b"
  "navigations (try_setItem k v b) = navigations b"
  "listeners (try_setItem k v b) = listeners b"
  by (simp_all add: try_setItem_def setItem_def)

lemma try_setItem_stored:
  "localStorage (try_setItem k v b) k = (if setItem_throws b then localStorage b k else Some v)"
  by (simp add: try_setItem_def setItem_def)

lemma markActiveFlag_frame:
  "loc_pathname (markActiveFlag L b) = loc_pathname b"
  "loc_search (markActiveFlag L b) = loc_search b"
  "loc_hash (markActiveFlag L b) = loc_hash b"
  "localStorage (markActiveFlag L b) = localStorage b"
  "navigations (markActiveFlag L b) = navigations b"
  "listeners (markActiveFlag L b) = listeners b"
  by (simp_all add: markActiveFlag_def)

lemma markActiveFlag_flags: "flags (markActiveFlag L b) = map (markFlag L) (flags b)"
  by (simp add: markActiveFlag_def)

lemma markActiveFlag_try_setItem:
  "flags (markActiveFlag L (try_setItem k v b)) = flags (markActiveFlag L b)"
  by (simp add: markActiveFlag_flags try_setItem_frame)

lemma buildTargetUrl_frame:
  "loc_search b' = loc_search b \<Longrightarrow> loc_hash b' = loc_hash b
   \<Longrightarrow> buildTargetUrl b' lang page = buildTargetUrl b lang page"
  by (simp add: buildTargetUrl_def)

lemma getCurrentPagePath_frame:
  "loc_pathname b' = loc_pathname b \<Longrightarrow> getCurrentPagePath b' = getCurrentPagePath b"
  by (simp add: getCurrentPagePath_def)

subsection \<open>Highlighting\<close>

lemma markFlag_active:
  "(''active'' \<in> set (classList (markFlag L img))) = (normalizeLang (Some (data_lang img)) = L)"
  by (simp add: markFlag_def classList_add_def classList_remove_def Let_def)

lemma markFlag_data_lang: "data_lang (markFlag L img) = data_lang img"
  by (simp add: markFlag_def classList_add_def classList_remove_def Let_def)

lemma markFlag_idem: "markFlag L (markFlag L img) = markFlag L img"
  by (simp add: markFlag_def classList_add_def classList_remove_def Let_def)

lemma markActiveFlag_idem: "markActiveFlag L (markActiveFlag L b) = markActiveFlag L b"
  by (simp add: markActiveFlag_def markFlag_idem)

text \<open>
  C9. After \<^const>\<open>markActiveFlag\<close> for a language \<open>L\<close> the document has the same flag
  elements with the same language attributes, and a flag element carries the class
  \<^verbatim>\<open>active\<close> exactly when its normalized attribute is \<open>L\<close>. A second call for the same
  language changes nothing, and after a call for \<open>M\<close> followed by a call for \<open>L\<close> the
  marked elements are again exactly those of \<open>L\<close>.
\<close>

theorem markActiveFlag_exactly_matching:
  "length (flags (markActiveFlag L b)) = length (flags b)
   \<and> (\<forall>i < length (flags b).
        data_lang (flags (markActiveFlag L b) ! i) = data_lang (flags b ! i)
        \<and> (''active'' \<in> set (classList (flags (markActiveFlag L b) ! i)))
            = (normalizeLang (Some (data_lang (flags b ! i))) = L))
   \<and> markActiveFlag L (markActiveFlag L b) = markActiveFlag L b
   \<and> (\<forall>i < length (flags b).
        (''active'' \<in> set (classList (flags (markActiveFlag L (markActiveFlag M b)) ! i)))
          = (normalizeLang (Some (data_lang (flags b ! i))) = L))"
  by (simp add: markActiveFlag_flags markFlag_active markFlag_data_lang markActiveFlag_idem)

theorem markActiveFlag_exactly_matching_witness:
  "''active'' \<notin> set (classList (flags (markActiveFlag ''uk'' (visit ''/nl/'' None None)) ! 1))
   \<and> ''active'' \<in> set (classList (flags (markActiveFlag ''uk'' (visit ''/nl/'' None None)) ! 2))
   \<and> ''active'' \<in> set (classList
        (flags (markActiveFlag ''nl'' (markActiveFlag ''uk'' (visit ''/nl/'' None None))) ! 1))
   \<and> ''active'' \<notin> set (classList
        (flags (markActiveFlag ''nl'' (markActiveFlag ''uk'' (visit ''/nl/'' None None))) ! 2))"
proof -
  have n: "normalizeLang (Some ''nl'') = ''nl''" "normalizeLang (Some ''ua'') = ''uk''"
    by code_simp+
  have f: "flags (visit ''/nl/'' None None) ! Suc 0 = \<lparr>data_lang = ''nl'', classList = []\<rparr>"
    "flags (visit ''/nl/'' None None) ! 2 = \<lparr>data_lang = ''ua'', classList = [''flag'']\<rparr>"
    "length (flags (visit ''/nl/'' None None)) = 3"
    by (simp_all add: visit_def switcher_flags_def)
  let ?b = "visit ''/nl/'' None None"
  have uk: "\<forall>i < length (flags ?b).
        data_lang (flags (markActiveFlag ''uk'' ?b) ! i) = data_lang (flags ?b ! i)
        \<and> (''active'' \<in> set (classList (flags (markActiveFlag ''uk'' ?b) ! i)))
            = (normalizeLang (Some (data_lang (flags ?b ! i))) = ''uk'')"
    and nl: "\<forall>i < length (flags ?b).
        (''active'' \<in> set (classList (flags (markActiveFlag ''nl'' (markActiveFlag ''uk'' ?b)) ! i)))
          = (normalizeLang (Some (data_lang (flags ?b ! i))) = ''nl'')"
    using markActiveFlag_exactly_matching [of "''uk''" ?b "''nl''"]
      markActiveFlag_exactly_matching [of "''nl''" ?b "''uk''"]
    by blast+
  from uk [rule_format, of 1] uk [rule_format, of 2] nl [rule_format, of 1] nl [rule_format, of 2]
  show ?thesis
    by (simp add: n f)
qed

subsection \<open>The click handler\<close>

lemma pageExists_iff: "pageExists fetch url = (fetch url = Response True)"
  by (simp add: pageExists_def split: fetch_outcome.splits)

text \<open>The handler never takes its early return: the normalized code is never empty.\<close>

lemma clickHandler_unfold:
  "clickHandler fetch raw b =
     (markActiveFlag (normalizeLang raw) (try_setItem STORAGE_KEY (normalizeLang raw) b))
     \<lparr>navigations := navigations b @
        [Assign (if pageExists fetch (buildTargetUrl b (normalizeLang raw) (getCurrentPagePath b))
                 then buildTargetUrl b (normalizeLang raw) (getCurrentPagePath b)
                 else buildTargetUrl b (normalizeLang raw) ''index.html'')]\<rparr>"
proof -
  let ?b2 = "markActiveFlag (normalizeLang raw) (try_setItem STORAGE_KEY (normalizeLang raw) b)"
  have s: "loc_search ?b2 = loc_search b" and h: "loc_hash ?b2 = loc_hash b"
    and p: "loc_pathname ?b2 = loc_pathname b" and n: "navigations ?b2 = navigations b"
    by (simp_all add: markActiveFlag_frame try_setItem_frame)
  have bt: "buildTargetUrl ?b2 lang page = buildTargetUrl b lang page" for lang page
    using s h by (rule buildTargetUrl_frame)
  have gp: "getCurrentPagePath ?b2 = getCurrentPagePath b"
    using p by (rule getCurrentPagePath_frame)
  show ?thesis
    by (simp add: clickHandler_def Let_def normalizeLang_nonempty bt gp n)
qed

lemma example_codes:
  "normalizeLang (Some ''en'') = ''en''" "normalizeLang (Some ''nl'') = ''nl''"
  "normalizeLang (Some ''ua'') = ''uk''" "normalizeLang (Some []) = ''nl''"
  "normalizeLang None = ''nl''" "normalizeLang (Some ''uk-UA'') = ''uk''"
  "normalizeLang (Some ''en-US'') = ''en''" "normalizeLang (Some ''about.html'') = ''nl''"
  by code_simp+

lemma example_paths:
  "getCurrentPagePath (visit ''/nl/services.html'' pref locale) = ''services.html''"
  "getCurrentPagePath (visit ''/en/about.html'' pref locale) = ''about.html''"
proof -
  have lc: "toLowerCase ''nl'' = ''nl''" "toLowerCase ''en'' = ''en''"
    by code_simp+
  show "getCurrentPagePath (visit ''/nl/services.html'' pref locale) = ''services.html''"
    "getCurrentPagePath (visit ''/en/about.html'' pref locale) = ''about.html''"
    by (simp_all add: getCurrentPagePath_def visit_def or_else_def first_elem_def lc SUPPORTED_def)
qed

text \<open>
  C5. Every click requests exactly one navigation, by assignment to \<^verbatim>\<open>location.href\<close>:
  with \<open>L\<close> the normalized language of the clicked flag, it goes to the candidate URL
  built for \<open>L\<close> and the current page identity exactly when the probe of that URL answers
  with an ok response; on a response that is not ok and on a rejected probe it goes to
  the index URL built for \<open>L\<close>.
\<close>

theorem click_navigates_candidate_or_index:
  "navigations (clickHandler fetch raw b) =
     navigations b @
       [Assign (if fetch (buildTargetUrl b (normalizeLang raw) (getCurrentPagePath b)) = Response True
                then buildTargetUrl b (normalizeLang raw) (getCurrentPagePath b)
                else buildTargetUrl b (normalizeLang raw) ''index.html'')]"
  by (simp add: clickHandler_unfold pageExists_iff)

theorem click_navigates_candidate_or_index_witness:
  "navigations (clickHandler fetch_absent (Some ''en'') (visit ''/nl/services.html'' (Some ''nl'') None))
     = [Assign ''/en/index.html'']
   \<and> navigations (clickHandler fetch_blocked (Some ''en'') (visit ''/nl/services.html'' (Some ''nl'') None))
     = [Assign ''/en/index.html'']
   \<and> navigations (clickHandler (fetch_only ''/en/services.html'') (Some ''en'')
        (visit ''/nl/services.html'' (Some ''nl'') None))
     = [Assign ''/en/services.html'']"
proof -
  let ?b = "visit ''/nl/services.html'' (Some ''nl'') None"
  have u: "buildTargetUrl ?b ''en'' ''services.html'' = ''/en/services.html''"
    "buildTargetUrl ?b ''en'' ''index.html'' = ''/en/index.html''"
    by (simp_all add: buildTargetUrl_def trim_def is_space_def visit_def)
  have n: "navigations ?b = []"
    by (simp add: visit_def)
  from click_navigates_candidate_or_index [of fetch_absent "Some ''en''" ?b]
    click_navigates_candidate_or_index [of fetch_blocked "Some ''en''" ?b]
    click_navigates_candidate_or_index [of "fetch_only ''/en/services.html''" "Some ''en''" ?b]
  show ?thesis
    by (simp add: example_codes example_paths u n fetch_absent_def fetch_blocked_def fetch_only_def)
qed

text \<open>
  C3, as the script has it. The normalized language of a click is never empty: an empty
  or absent attribute normalizes to the default language. So the handler never returns
  early: it stores the normalized language under the storage key (unless the write
  throws, which leaves the stored value as it was), highlights that language and
  requests one navigation.
\<close>

theorem click_never_aborts:
  "normalizeLang raw \<noteq> []
   \<and> normalizeLang None = DEFAULT_LANG \<and> normalizeLang (Some []) = DEFAULT_LANG
   \<and> localStorage (clickHandler fetch raw b) STORAGE_KEY =
       (if setItem_throws b then localStorage b STORAGE_KEY else Some (normalizeLang raw))
   \<and> flags (clickHandler fetch raw b) = flags (markActiveFlag (normalizeLang raw) b)
   \<and> length (navigations (clickHandler fetch raw b)) = Suc (length (navigations b))"
proof -
  have "normalizeLang None = DEFAULT_LANG \<and> normalizeLang (Some []) = DEFAULT_LANG"
    by (simp add: normalizeLang_def truthy_def)
  then show ?thesis
    by (simp add: clickHandler_unfold normalizeLang_nonempty markActiveFlag_frame
        try_setItem_stored markActiveFlag_try_setItem)
qed

theorem click_never_aborts_witness:
  "localStorage (clickHandler fetch_blocked None (visit ''/en/about.html'' (Some ''en'') None))
     STORAGE_KEY = Some ''nl''
   \<and> length (navigations
        (clickHandler fetch_blocked None (visit ''/en/about.html'' (Some ''en'') None))) = 1"
  using click_never_aborts [of None fetch_blocked "visit ''/en/about.html'' (Some ''en'') None"]
  by (simp add: visit_def DEFAULT_LANG_def)

text \<open>
  The claim C3 fails on a flag whose attribute is empty: on a page under \<^verbatim>\<open>/en/\<close> with
  the preference \<^verbatim>\<open>en\<close> stored, a click on such a flag stores \<^verbatim>\<open>nl\<close>, marks other flags
  and navigates to the Dutch index page.
\<close>

theorem click_empty_attribute_proceeds:
  "localStorage
     ((visit ''/en/about.html'' (Some ''en'') None)
        \<lparr>flags := switcher_flags @ [\<lparr>data_lang = [], classList = []\<rparr>]\<rparr>) STORAGE_KEY = Some ''en''
   \<and> clickHandler fetch_absent (Some [])
       ((visit ''/en/about.html'' (Some ''en'') None)
          \<lparr>flags := switcher_flags @ [\<lparr>data_lang = [], classList = []\<rparr>]\<rparr>)
     = (visit ''/en/about.html'' (Some ''nl'') None)
         \<lparr>flags := [\<lparr>data_lang = ''en'', classList = []\<rparr>,
                    \<lparr>data_lang = ''nl'', classList = [''active'']\<rparr>,
                    \<lparr>data_lang = ''ua'', classList = [''flag'']\<rparr>,
                    \<lparr>data_lang = [], classList = [''active'']\<rparr>],
          navigations := [Assign ''/nl/index.html'']\<rparr>"
proof -
  have p: "getCurrentPagePath ((visit ''/en/about.html'' (Some ''en'') None)\<lparr>flags := fs\<rparr>)
      = ''about.html''" for fs
    using example_paths(2) [of "Some ''en''" None]
    by (simp add: getCurrentPagePath_def visit_def)
  show ?thesis
    by (simp add: clickHandler_unfold p example_codes pageExists_def fetch_absent_def
        model_defs)
qed

subsection \<open>Initialization\<close>

lemma addListeners_frame:
  "navigations (addListeners b) = navigations b"
  "localStorage (addListeners b) = localStorage b"
  "flags (addListeners b) = flags b"
  by (simp_all add: addListeners_def)

lemma markByUrl_navigations: "navigations (markByUrl b) = navigations b"
  by (simp add: markByUrl_def Let_def try_setItem_frame markActiveFlag_frame)

lemma initialLang_returns:
  "\<not> getItem_throws b \<Longrightarrow>
   initialLang b =
     Inr (if normalizeLang (Some (or_else (localStorage b STORAGE_KEY) [])) = DEFAULT_LANG
          then pickLangFromNavigator b
          else normalizeLang (Some (or_else (localStorage b STORAGE_KEY) [])))"
  by (simp add: initialLang_def getItem_def Let_def normalizeLang_nonempty
      pickLangFromNavigator_def or_else_def)

lemma initialLang_supported:
  "initialLang b = Inr lang \<Longrightarrow> lang \<in> set SUPPORTED"
  using normalizeLang_range [of "Some (or_else (localStorage b STORAGE_KEY) [])"]
    normalizeLang_range [of "Some (if truthy (nav_language b) then or_else (nav_language b) []
                 else or_else (nav_userLanguage b) [])"]
  by (auto simp: initialLang_def getItem_def Let_def pickLangFromNavigator_def or_else_def
      SUPPORTED_def DEFAULT_LANG_def split: if_splits)

text \<open>
  C10. With no flag element in the document \<^const>\<open>initLangSwitcher\<close> returns at once: it
  ends without an exception in the state it started in, so nothing is redirected,
  stored, highlighted or registered, whatever the path is, and the storage is not even
  read (the result is the same when reading would throw).
\<close>

theorem init_without_flags_noop:
  "flags b = [] \<Longrightarrow> initLangSwitcher b = Inr b"
  by (simp add: initLangSwitcher_def)

theorem init_without_flags_noop_witness:
  "initLangSwitcher
     ((visit ''/'' (Some ''en'') (Some ''uk-UA''))\<lparr>getItem_throws := True, flags := []\<rparr>)
   = Inr ((visit ''/'' (Some ''en'') (Some ''uk-UA''))\<lparr>getItem_throws := True, flags := []\<rparr>)"
  using init_without_flags_noop
    [of "(visit ''/'' (Some ''en'') (Some ''uk-UA''))\<lparr>getItem_throws := True, flags := []\<rparr>"]
  by simp

lemma init_navigations:
  assumes "flags b \<noteq> []" and "initialLang b = Inr lang"
  shows "\<exists>b'. initLangSwitcher b = Inr b'
           \<and> navigations b' = navigations (autoRedirectFromRoot lang b)"
  using assms
  by (simp add: initLangSwitcher_def markByUrl_navigations addListeners_frame
      markActiveFlag_frame)

lemma index_url:
  "buildTargetUrl b lang ''index.html'' = ''/'' @ lang @ ''/index.html'' @ loc_search b @ loc_hash b"
  by (simp add: buildTargetUrl_def trim_def is_space_def)

text \<open>
  C7, as the script has it. On a page load at \<^verbatim>\<open>/\<close> or \<^verbatim>\<open>/index.html\<close> of a document
  with at least one flag element, and with a stored preference that can be read, the
  initial language is a supported code and initialization requests one navigation, a
  history-replacing one, to the index URL of that language: \<^verbatim>\<open>/<lang>/index.html\<close>
  followed by the query string and the fragment of the current URL.
\<close>

theorem root_redirects_to_language_index:
  assumes "flags b \<noteq> []" and "\<not> getItem_throws b"
    and "loc_pathname b = ''/'' \<or> loc_pathname b = ''/index.html''"
  shows "\<exists>lang b'. initialLang b = Inr lang \<and> lang \<in> set SUPPORTED
           \<and> initLangSwitcher b = Inr b'
           \<and> navigations b' =
               navigations b @ [Replace (''/'' @ lang @ ''/index.html'' @ loc_search b @ loc_hash b)]"
proof -
  from assms(2) obtain lang where lang: "initialLang b = Inr lang"
    by (simp add: initialLang_returns)
  from init_navigations [OF assms(1) lang] obtain b' where
    b': "initLangSwitcher b = Inr b'" "navigations b' = navigations (autoRedirectFromRoot lang b)"
    by blast
  have "navigations (autoRedirectFromRoot lang b) =
      navigations b @ [Replace (''/'' @ lang @ ''/index.html'' @ loc_search b @ loc_hash b)]"
    using assms(3) by (auto simp: autoRedirectFromRoot_def or_else_def index_url)
  with lang b' initialLang_supported [OF lang] show ?thesis
    by simp
qed

theorem root_redirects_to_language_index_witness:
  "\<exists>b'. initLangSwitcher (visit ''/'' None (Some ''uk-UA'')) = Inr b'
     \<and> navigations b' = [Replace ''/uk/index.html'']"
proof -
  let ?b = "visit ''/'' None (Some ''uk-UA'')"
  have pre: "flags ?b \<noteq> []" "\<not> getItem_throws ?b"
    "loc_pathname ?b = ''/'' \<or> loc_pathname ?b = ''/index.html''"
    by (simp_all add: visit_def switcher_flags_def)
  have "initialLang ?b = Inr ''uk''"
    by (simp add: initialLang_returns pickLangFromNavigator_def example_codes visit_def
        or_else_def truthy_def DEFAULT_LANG_def)
  with root_redirects_to_language_index [OF pre] show ?thesis
    by (auto simp: visit_def)
qed

text \<open>
  The claim C7 fails on a document without flag elements: at the root path
  initialization ends in the state it started in, with no navigation requested.
\<close>

theorem root_without_flags_no_redirect:
  "loc_pathname ((visit ''/'' None (Some ''uk-UA''))\<lparr>flags := []\<rparr>) = ''/''
   \<and> navigations ((visit ''/'' None (Some ''uk-UA''))\<lparr>flags := []\<rparr>) = []
   \<and> initLangSwitcher ((visit ''/'' None (Some ''uk-UA''))\<lparr>flags := []\<rparr>)
     = Inr ((visit ''/'' None (Some ''uk-UA''))\<lparr>flags := []\<rparr>)"
  by (simp add: initLangSwitcher_def visit_def)

text \<open>
  What \<^verbatim>\<open>markByUrl\<close> stores does not depend on its test: whenever the write succeeds,
  the stored preference after it is the normalized leading segment of the lower-cased
  path, which is the default language for every segment that is no language code.
\<close>

lemma markByUrl_stores:
  "\<not> setItem_throws b \<Longrightarrow>
   localStorage (markByUrl b) STORAGE_KEY =
     Some (normalizeLang (Some (or_else (first_elem (split CHR ''/''
       (strip_slashes (toLowerCase (or_else (Some (loc_pathname b)) ''/''))))) [])))"
  using normalizeLang_range
    [of "Some (or_else (first_elem (split CHR ''/''
       (strip_slashes (toLowerCase (or_else (Some (loc_pathname b)) ''/''))))) [])"]
  by (auto simp: markByUrl_def Let_def try_setItem_def setItem_def markActiveFlag_def
      SUPPORTED_def)

text \<open>
  C1 at a failing input. A page load at \<^verbatim>\<open>/about.html\<close>, whose leading segment is no
  language code, with the preference \<^verbatim>\<open>en\<close> stored: \<^verbatim>\<open>markByUrl\<close> normalizes the segment to
  the default language, which passes its test, and the stored preference becomes \<^verbatim>\<open>nl\<close>.
\<close>

theorem init_overwrites_preference_off_language_path:
  "localStorage (visit ''/about.html'' (Some ''en'') None) STORAGE_KEY = Some ''en''
   \<and> initLangSwitcher (visit ''/about.html'' (Some ''en'') None)
     = Inr ((visit ''/about.html'' (Some ''nl'') None)
             \<lparr>flags := [\<lparr>data_lang = ''en'', classList = []\<rparr>,
                        \<lparr>data_lang = ''nl'', classList = [''active'']\<rparr>,
                        \<lparr>data_lang = ''ua'', classList = [''flag'']\<rparr>],
              listeners := [0, 1, 2]\<rparr>)"
proof -
  have lc: "toLowerCase ''/about.html'' = ''/about.html''"
    by code_simp
  show ?thesis
    by (simp add: example_codes lc model_defs upt_rec)
qed

text \<open>
  C2 at a failing input. A page load at the root with the default language \<^verbatim>\<open>nl\<close> stored
  and the browser locale \<^verbatim>\<open>en-US\<close>: the stored value counts as no value, the browser
  locale decides, and the redirect goes to the English index page.
\<close>

theorem init_stored_default_consults_browser:
  "initialLang (visit ''/'' (Some ''nl'') (Some ''en-US'')) = Inr ''en''
   \<and> initLangSwitcher (visit ''/'' (Some ''nl'') (Some ''en-US''))
     = Inr ((visit ''/'' (Some ''nl'') (Some ''en-US''))
             \<lparr>flags := [\<lparr>data_lang = ''en'', classList = []\<rparr>,
                        \<lparr>data_lang = ''nl'', classList = [''active'']\<rparr>,
                        \<lparr>data_lang = ''ua'', classList = [''flag'']\<rparr>],
              navigations := [Replace ''/en/index.html''],
              listeners := [0, 1, 2]\<rparr>)"
proof -
  have lc: "toLowerCase ''/'' = ''/''"
    by code_simp
  show ?thesis
    by (simp add: example_codes lc model_defs upt_rec)
qed

text \<open>
  C4 at a failing input. A page load at the root when every access to the storage
  throws: the unguarded read ends initialization with the exception, before the
  redirect, the highlighting and the registration of the click listeners.
\<close>

theorem init_aborts_when_read_throws:
  "initLangSwitcher
     ((visit ''/'' None (Some ''uk-UA''))\<lparr>getItem_throws := True, setItem_throws := True\<rparr>)
   = Inl StorageError"
  by (simp add: initLangSwitcher_def initialLang_def getItem_def visit_def switcher_flags_def)

end
